theory Spec2Isabelle
  imports Complex_Main
begin

section \<open>Python values and exceptions\<close>

text \<open>
  The services are Python. Exceptions are values of the type \<open>error\<close>; a function that can
  raise returns \<open>error + 'a\<close> with \<open>Inl\<close> for the raised exception. A Python float is
  a real number here: the comparisons against the literals 0.3, 0.6, 0.8, 50, 7, 8 and 3
  and the arithmetic of the cost metric are exact, and NaN is left out. The conversion
  \<open>float(i)\<close> of an integer is modelled with its rounding and its \<open>OverflowError\<close>.
\<close>

datatype error =
    ValueError string
  | TypeError
  | KeyError string
  | IndexError
  | AttributeError
  | OverflowError
  | LibraryError string

datatype py_value =
    PyNone
  | PyBool bool
  | PyInt int
  | PyFloat real
  | PyStr string

type_synonym features = "string \<rightharpoonup> py_value"

definition bind_err :: "error + 'a \<Rightarrow> ('a \<Rightarrow> error + 'b) \<Rightarrow> error + 'b" where
  "bind_err m f = (case m of Inl e \<Rightarrow> Inl e | Inr x \<Rightarrow> f x)"

text \<open>\<open>isinstance(value, (int, float))\<close>: \<open>bool\<close> is a subclass of \<open>int\<close>.\<close>

fun is_int_or_float :: "py_value \<Rightarrow> bool" where
  "is_int_or_float (PyBool _) = True"
| "is_int_or_float (PyInt _) = True"
| "is_int_or_float (PyFloat _) = True"
| "is_int_or_float _ = False"

text \<open>The number a numeric value stands for; Python compares numbers by it.\<close>

fun py_number :: "py_value \<Rightarrow> real" where
  "py_number (PyBool b) = (if b then 1 else 0)"
| "py_number (PyInt i) = of_int i"
| "py_number (PyFloat r) = r"
| "py_number _ = 0"

text \<open>
  \<open>float(i)\<close> for an integer \<open>i\<close>, as CPython computes it: the magnitude is rounded to 53
  significant bits, a tie going to the even neighbour, and a result of \<open>2 ^ 1024\<close> or more
  raises \<open>OverflowError\<close> ("int too large to convert to float").
\<close>

fun bit_length :: "nat \<Rightarrow> nat" where
  "bit_length n = (if n = 0 then 0 else Suc (bit_length (n div 2)))"

declare bit_length.simps [simp del]

definition round_to_double :: "nat \<Rightarrow> nat" where
  "round_to_double n =
     (let e = bit_length n
      in if e \<le> 53 then n
         else let shift = e - 53;
                  q = n div 2 ^ shift;
                  r = n mod 2 ^ shift;
                  half = 2 ^ (shift - 1);
                  q' = (if r > half \<or> (r = half \<and> odd q) then q + 1 else q)
              in q' * 2 ^ shift)"

definition float_of_int :: "int \<Rightarrow> error + real" where
  "float_of_int i =
     (let m = round_to_double (nat \<bar>i\<bar>)
      in if m \<ge> 2 ^ 1024 then Inl OverflowError
         else Inr (if i < 0 then - real m else real m))"

text \<open>
  \<open>float(value)\<close>. The service calls it on values that passed the \<open>isinstance\<close> test
  only; on the others it raises.
\<close>

fun py_float :: "py_value \<Rightarrow> error + real" where
  "py_float (PyBool b) = Inr (if b then 1 else 0)"
| "py_float (PyInt i) = float_of_int i"
| "py_float (PyFloat r) = Inr r"
| "py_float _ = Inl TypeError"

text \<open>
  \<open>value > c\<close> and \<open>value < c\<close> against an integer literal: numbers compare by value,
  \<open>None\<close> and strings raise \<open>TypeError\<close>.
\<close>

definition py_gt :: "py_value \<Rightarrow> int \<Rightarrow> error + bool" where
  "py_gt v c = (if is_int_or_float v then Inr (py_number v > of_int c) else Inl TypeError)"

definition py_lt :: "py_value \<Rightarrow> int \<Rightarrow> error + bool" where
  "py_lt v c = (if is_int_or_float v then Inr (py_number v < of_int c) else Inl TypeError)"

text \<open>\<open>xs[i]\<close> for a non-negative literal index, and \<open>max(xs)\<close>.\<close>

definition py_index :: "'a list \<Rightarrow> nat \<Rightarrow> error + 'a" where
  "py_index xs i = (if i < length xs then Inr (xs ! i) else Inl IndexError)"

fun py_max :: "real list \<Rightarrow> error + real" where
  "py_max [] = Inl (ValueError ''max() arg is an empty sequence'')"
| "py_max (x # xs) = Inr (fold max xs x)"

text \<open>\<open>s.endswith(suffix)\<close>.\<close>

definition endswith :: "string \<Rightarrow> string \<Rightarrow> bool" where
  "endswith s suf = (length suf \<le> length s \<and> drop (length s - length suf) s = suf)"


section \<open>predict.py: the prediction service\<close>

subsection \<open>\<open>_prepare_features\<close>\<close>

definition expected_features :: "string list" where
  "expected_features =
     [''work_hours_per_week'',
      ''meeting_hours_per_week'',
      ''email_count_per_day'',
      ''stress_level'',
      ''workload_score'',
      ''work_life_balance'',
      ''team_size'',
      ''remote_work_percentage'',
      ''overtime_hours'',
      ''deadline_pressure'']"

text \<open>\<open>features.get(feature, default)\<close>.\<close>

definition dict_get :: "('k \<rightharpoonup> 'v) \<Rightarrow> 'k \<Rightarrow> 'v \<Rightarrow> 'v" where
  "dict_get d k dflt = (case d k of None \<Rightarrow> dflt | Some v \<Rightarrow> v)"

text \<open>
  The loop \<open>for feature in expected_features\<close>: the first argument is what is left of the
  list, the last one the \<open>feature_vector\<close> built so far. An exception of \<open>float(value)\<close>
  leaves the loop and the function.
\<close>

fun prepare_loop :: "string list \<Rightarrow> features \<Rightarrow> real list \<Rightarrow> error + real list" where
  "prepare_loop [] features feature_vector = Inr feature_vector"
| "prepare_loop (feature # rest) features feature_vector =
     (let v = dict_get features feature (PyFloat 0)
      in if is_int_or_float v
         then (case py_float v of
                 Inl e \<Rightarrow> Inl e
               | Inr x \<Rightarrow> prepare_loop rest features (feature_vector @ [x]))
         else prepare_loop rest features (feature_vector @ [0]))"

definition prepare_features :: "features \<Rightarrow> error + real list" where
  "prepare_features features = prepare_loop expected_features features []"

subsection \<open>\<open>_determine_risk_level\<close>\<close>

definition determine_risk_level :: "real \<Rightarrow> string" where
  "determine_risk_level risk_score =
     (if risk_score < 0.3 then ''low''
      else if risk_score < 0.6 then ''medium''
      else if risk_score < 0.8 then ''high''
      else ''critical'')"

subsection \<open>\<open>_analyze_factors\<close>\<close>

record factor =
  fvalue :: py_value
  impact :: string
  description :: string

type_synonym factors = "string \<rightharpoonup> factor"

definition analyze_factors :: "features \<Rightarrow> real \<Rightarrow> error + factors" where
  "analyze_factors features risk_score =
     (let factors0 = Map.empty;
          work_hours = dict_get features ''work_hours_per_week'' (PyInt 0)
      in bind_err (py_gt work_hours 50) (\<lambda>c1.
         let factors1 =
               (if c1 then factors0(''excessive_hours'' \<mapsto>
                   \<lparr>fvalue = work_hours, impact = ''high'',
                    description = ''Working more than 50 hours per week''\<rparr>)
                else factors0);
             stress_level = dict_get features ''stress_level'' (PyInt 0)
         in bind_err (py_gt stress_level 7) (\<lambda>c2.
         let factors2 =
               (if c2 then factors1(''high_stress'' \<mapsto>
                   \<lparr>fvalue = stress_level, impact = ''high'',
                    description = ''High stress level reported''\<rparr>)
                else factors1);
             workload = dict_get features ''workload_score'' (PyInt 0)
         in bind_err (py_gt workload 8) (\<lambda>c3.
         let factors3 =
               (if c3 then factors2(''heavy_workload'' \<mapsto>
                   \<lparr>fvalue = workload, impact = ''medium'',
                    description = ''Heavy workload reported''\<rparr>)
                else factors2);
             work_life_balance = dict_get features ''work_life_balance'' (PyInt 0)
         in bind_err (py_lt work_life_balance 3) (\<lambda>c4.
         let factors4 =
               (if c4 then factors3(''poor_work_life_balance'' \<mapsto>
                   \<lparr>fvalue = work_life_balance, impact = ''high'',
                    description = ''Poor work-life balance''\<rparr>)
                else factors3)
         in Inr factors4)))))"

subsection \<open>\<open>_generate_recommendations\<close>\<close>

text \<open>
  Only the keys of \<open>factors\<close> are read (\<open>'excessive_hours' in factors\<close>), so the function
  takes a dictionary with any kind of value.
\<close>

definition generate_recommendations :: "string \<Rightarrow> (string \<rightharpoonup> 'v) \<Rightarrow> string list" where
  "generate_recommendations risk_level factors =
     (let r0 =
        (if risk_level = ''low'' then
           [] @ [''Continue maintaining healthy work habits'']
              @ [''Regularly monitor your stress levels'']
         else if risk_level = ''medium'' then
           [] @ [''Consider reducing work hours if possible'']
              @ [''Take regular breaks throughout the day'']
              @ [''Practice stress management techniques'']
         else if risk_level = ''high'' then
           [] @ [''Urgent: Reduce workload and work hours'']
              @ [''Schedule regular time off'']
              @ [''Consider speaking with your manager about workload'']
              @ [''Seek professional help if needed'']
         else
           [] @ [''Immediate action required: Take time off'']
              @ [''Contact HR or management immediately'']
              @ [''Consider professional counseling'']
              @ [''Review and adjust work responsibilities'']);
          r1 = (if ''excessive_hours'' \<in> dom factors
                then r0 @ [''Set strict work hour boundaries''] else r0);
          r2 = (if ''high_stress'' \<in> dom factors
                then r1 @ [''Implement daily stress reduction activities''] else r1);
          r3 = (if ''poor_work_life_balance'' \<in> dom factors
                then r2 @ [''Create clear boundaries between work and personal time'']
                else r2)
      in r3)"

subsection \<open>\<open>predict\<close>\<close>

text \<open>
  A loaded model is whatever \<open>joblib.load\<close> returned (or the \<open>DummyModel\<close>); the service
  calls its \<open>predict\<close> and \<open>predict_proba\<close> on a one-row matrix, and either call may raise.
\<close>

record served_model =
  predict_fn :: "real list list \<Rightarrow> error + real list"
  predict_proba_fn :: "real list list \<Rightarrow> error + real list list"

record prediction_service =
  models :: "string \<rightharpoonup> served_model"
  model_versions :: "string list"

record prediction =
  prediction_id :: string
  user_id :: string
  risk_level :: string
  risk_score :: real
  confidence :: real
  pfactors :: factors
  recommendations :: "string list"
  model_version :: string
  prediction_date :: nat

text \<open>
  \<open>uuid\<close> is the string \<open>str(uuid.uuid4())\<close> and \<open>now\<close> the clock \<open>datetime.utcnow()\<close> of
  the call. The \<open>except\<close> clause logs and re-raises, so an exception of the body is the
  exception of \<open>predict\<close>.
\<close>

definition predict ::
  "prediction_service \<Rightarrow> string \<Rightarrow> nat \<Rightarrow> string \<Rightarrow> features \<Rightarrow> string \<Rightarrow> error + prediction" where
  "predict self uuid now uid features mv =
     (let mv1 = (if mv = ''latest''
                 then (if model_versions self \<noteq> [] then last (model_versions self) else ''dummy'')
                 else mv)
      in case models self mv1 of
           None \<Rightarrow> Inl (ValueError (''Model version '' @ mv1 @ '' not found''))
         | Some model \<Rightarrow>
             bind_err (prepare_features features) (\<lambda>feature_vector.
                 bind_err (bind_err (predict_fn model [feature_vector]) (\<lambda>r. py_index r 0))
                   (\<lambda>rscore.
                 bind_err (bind_err (predict_proba_fn model [feature_vector]) (\<lambda>r. py_index r 0))
                   (\<lambda>risk_prob.
                 let rlevel = determine_risk_level rscore
                 in bind_err (analyze_factors features rscore) (\<lambda>fs.
                    let recs = generate_recommendations rlevel fs
                    in bind_err (py_max risk_prob) (\<lambda>conf.
                       Inr \<lparr>prediction_id = uuid, user_id = uid, risk_level = rlevel,
                            risk_score = rscore, confidence = conf, pfactors = fs,
                            recommendations = recs, model_version = mv1,
                            prediction_date = now\<rparr>))))))"


section \<open>simple\_model.py: the stand-alone random-forest model\<close>

definition feature_names :: "string list" where
  "feature_names =
     [''work_hours_per_week'',
      ''meeting_hours_per_week'',
      ''email_count_per_day'',
      ''stress_level'',
      ''workload_score'',
      ''work_life_balance'',
      ''overtime_hours'',
      ''deadline_pressure'',
      ''team_size'',
      ''remote_work_percentage'']"

text \<open>
  The fitted scaler and forest are library objects; the model holds what they compute.
  \<open>predict_single\<close> reads numeric features by name.
\<close>

record burnout_prediction_model =
  is_trained :: bool
  model_feature_names :: "string list"
  scaler_transform :: "real list list \<Rightarrow> real list list"
  forest_predict :: "real list list \<Rightarrow> int list"
  forest_predict_proba :: "real list list \<Rightarrow> real list list"

record single_prediction =
  sp_prediction :: int
  sp_risk_score :: real
  sp_risk_level :: string
  sp_confidence :: real

text \<open>\<open>[features[f] for f in self.feature_names]\<close>: the first missing key raises.\<close>

fun lookup_all :: "(string \<rightharpoonup> real) \<Rightarrow> string list \<Rightarrow> error + real list" where
  "lookup_all features [] = Inr []"
| "lookup_all features (f # fs) =
     (case features f of
        None \<Rightarrow> Inl (KeyError f)
      | Some v \<Rightarrow> bind_err (lookup_all features fs) (\<lambda>vs. Inr (v # vs)))"

definition predict_single ::
  "burnout_prediction_model \<Rightarrow> (string \<rightharpoonup> real) \<Rightarrow> error + single_prediction" where
  "predict_single self features =
     (if \<not> is_trained self
      then Inl (ValueError ''Model must be trained before making predictions'')
      else bind_err (lookup_all features (model_feature_names self)) (\<lambda>row.
           let feature_array_scaled = scaler_transform self [row]
           in bind_err (py_index (forest_predict self feature_array_scaled) 0) (\<lambda>pred.
              bind_err (py_index (forest_predict_proba self feature_array_scaled) 0)
                (\<lambda>probability.
              bind_err (py_index probability 1) (\<lambda>rscore.
              let rlevel = (if rscore < 0.3 then ''low''
                            else if rscore < 0.6 then ''medium''
                            else if rscore < 0.8 then ''high''
                            else ''critical'')
              in bind_err (py_max probability) (\<lambda>conf.
                 Inr \<lparr>sp_prediction = pred, sp_risk_score = rscore,
                      sp_risk_level = rlevel, sp_confidence = conf\<rparr>))))))"


section \<open>Dataset files\<close>

text \<open>
  A data frame as the loaders read it: feature columns hold numbers or NaN (\<open>None\<close>), and
  the optional label column \<open>burnout_risk\<close> holds class labels. The file system, the pandas
  readers and numpy's seeded generator are parameters: \<open>np_random_rand seed i j\<close> is entry
  \<open>(i, j)\<close> of \<open>np.random.rand(n, 10)\<close> drawn after \<open>np.random.seed(seed)\<close>.
\<close>

record dataframe =
  columns :: "string \<rightharpoonup> real option list"
  burnout_risk :: "int list option"

record file_env =
  path_exists :: "string \<Rightarrow> bool"
  read_csv :: "string \<Rightarrow> error + dataframe"
  read_json :: "string \<Rightarrow> error + dataframe"
  np_random_rand :: "nat \<Rightarrow> nat \<Rightarrow> nat \<Rightarrow> real"

type_synonym dataset = "real list list \<times> int list"

text \<open>\<open>df[feature_columns]\<close> raises \<open>KeyError\<close> on a missing column.\<close>

fun select_columns :: "dataframe \<Rightarrow> string list \<Rightarrow> error + real option list list" where
  "select_columns df [] = Inr []"
| "select_columns df (c # cs) =
     (case columns df c of
        None \<Rightarrow> Inl (KeyError c)
      | Some col \<Rightarrow> bind_err (select_columns df cs) (\<lambda>rest. Inr (col # rest)))"

definition fillna0 :: "real option list list \<Rightarrow> real list list" where
  "fillna0 cols = map (map (\<lambda>c. case c of None \<Rightarrow> 0 | Some x \<Rightarrow> x)) cols"

text \<open>
  \<open>_generate_target\<close>, the same in both services. Every row it is given has the ten
  feature columns.
\<close>

definition generate_target :: "real list list \<Rightarrow> int list" where
  "generate_target X =
     map (\<lambda>row. if row ! 0 * 0.3 + row ! 3 * 0.4 + row ! 4 * 0.3 > 0.5 then 1 else 0) X"

definition random_matrix :: "file_env \<Rightarrow> nat \<Rightarrow> nat \<Rightarrow> real list list" where
  "random_matrix env seed n_samples =
     map (\<lambda>i. map (\<lambda>j. np_random_rand env seed i j) [0..<10]) [0..<n_samples]"


section \<open>train.py: the training service\<close>

definition feature_columns :: "string list" where
  "feature_columns =
     [''work_hours_per_week'', ''meeting_hours_per_week'', ''email_count_per_day'',
      ''stress_level'', ''workload_score'', ''work_life_balance'', ''team_size'',
      ''remote_work_percentage'', ''overtime_hours'', ''deadline_pressure'']"

definition generate_dummy_data :: "file_env \<Rightarrow> dataset" where
  "generate_dummy_data env =
     (let X = random_matrix env 42 1000 in (X, generate_target X))"

text \<open>The body of the \<open>try\<close> in \<open>_load_training_data\<close>.\<close>

definition load_training_data_try :: "file_env \<Rightarrow> string \<Rightarrow> error + dataset" where
  "load_training_data_try env dataset_path =
     (if \<not> path_exists env dataset_path then Inr (generate_dummy_data env)
      else bind_err
             (if endswith dataset_path ''.csv'' then read_csv env dataset_path
              else if endswith dataset_path ''.json'' then read_json env dataset_path
              else Inl (ValueError (''Unsupported file format: '' @ dataset_path)))
             (\<lambda>df.
           bind_err (select_columns df feature_columns) (\<lambda>cols.
           let X = transpose (fillna0 cols);
               y = (case burnout_risk df of Some l \<Rightarrow> l | None \<Rightarrow> generate_target X)
           in Inr (X, y))))"

text \<open>\<open>_load_training_data\<close>: \<open>except Exception\<close> answers every exception of the body.\<close>

definition load_training_data :: "file_env \<Rightarrow> string \<Rightarrow> error + dataset" where
  "load_training_data env dataset_path =
     (case load_training_data_try env dataset_path of
        Inr r \<Rightarrow> Inr r
      | Inl e \<Rightarrow> Inr (generate_dummy_data env))"

subsection \<open>Training jobs\<close>

text \<open>
  What the absent \<open>AdvancedTrainingPipeline\<close> returns is read with \<open>.get\<close>: it is a
  dictionary or it is not, and so is the value under \<open>'best_model'\<close>, which may hold
  \<open>'metrics'\<close>.
\<close>

datatype best_model_info = InfoNotDict | InfoDict "(string \<rightharpoonup> real) option"

datatype training_results = ResultsNotDict | ResultsDict "best_model_info option"

record forest_params =
  n_estimators :: nat
  max_depth :: nat
  min_samples_split :: "nat option"
  min_samples_leaf :: "nat option"
  random_state :: nat

text \<open>A fitted classifier, as the services call it; \<open>None\<close> is a missing \<open>predict_proba\<close>.\<close>

record classifier =
  clf_predict :: "real list list \<Rightarrow> error + int list"
  clf_predict_proba :: "(real list list \<Rightarrow> error + real list list) option"
  clf_type_name :: string

text \<open>
  The collaborators of a training run: the advanced pipeline, scikit-learn, joblib and the
  clock. \<open>utcnow_stamp\<close> is \<open>datetime.utcnow().strftime('%Y%m%d_%H%M%S')\<close>.
\<close>

record train_env =
  tfiles :: file_env
  feature_pipeline_initialize :: "error option"
  train_comprehensive_model :: "string list \<Rightarrow> nat \<Rightarrow> bool \<Rightarrow> error + training_results"
  train_test_split ::
    "real list list \<Rightarrow> int list
       \<Rightarrow> error + (real list list \<times> real list list \<times> int list \<times> int list)"
  forest_fit :: "forest_params \<Rightarrow> real list list \<Rightarrow> int list \<Rightarrow> error + classifier"
  weighted_metrics :: "int list \<Rightarrow> int list \<Rightarrow> error + (string \<rightharpoonup> real)"
  joblib_dump :: "classifier \<Rightarrow> string \<Rightarrow> error option"
  utcnow :: nat
  utcnow_stamp :: string

record job =
  status :: string
  job_model_type :: string
  dataset_path :: string
  hyperparameters :: "string \<rightharpoonup> nat"
  start_time :: nat
  progress :: nat
  metrics :: "string \<rightharpoonup> real"
  job_training_results :: "training_results option"
  job_model_version :: "string option"
  end_time :: "nat option"
  job_error :: "error option"

text \<open>
  \<open>status_log\<close> is not an attribute of the Python object: it lists every assignment to a
  job's \<open>"status"\<close>, in order, as (training id, status).
\<close>

record training_service =
  training_jobs :: "string \<rightharpoonup> job"
  status_log :: "(string \<times> string) list"

definition models_dir :: string where
  "models_dir = ''models''"

text \<open>\<open>os.path.join(a, b)\<close> on POSIX.\<close>

definition os_path_join :: "string \<Rightarrow> string \<Rightarrow> string" where
  "os_path_join a b =
     (if b \<noteq> [] \<and> hd b = CHR ''/'' then b
      else if a = [] \<or> last a = CHR ''/'' then a @ b
      else a @ ''/'' @ b)"

definition update_job :: "string \<Rightarrow> (job \<Rightarrow> job) \<Rightarrow> training_service \<Rightarrow> training_service" where
  "update_job tid f s =
     (case training_jobs s tid of
        None \<Rightarrow> s
      | Some j \<Rightarrow> s\<lparr>training_jobs := (training_jobs s)(tid \<mapsto> f j)\<rparr>)"

text \<open>\<open>job["status"] = st\<close>.\<close>

definition write_status :: "string \<Rightarrow> string \<Rightarrow> training_service \<Rightarrow> training_service" where
  "write_status tid st s =
     (update_job tid (\<lambda>j. j\<lparr>status := st\<rparr>) s)\<lparr>status_log := status_log s @ [(tid, st)]\<rparr>"

text \<open>\<open>job["status"] = st; job["progress"] = n\<close>.\<close>

definition write_stage :: "string \<Rightarrow> string \<Rightarrow> nat \<Rightarrow> training_service \<Rightarrow> training_service" where
  "write_stage tid st n s = update_job tid (\<lambda>j. j\<lparr>progress := n\<rparr>) (write_status tid st s)"

definition job_status_history :: "training_service \<Rightarrow> string \<Rightarrow> string list" where
  "job_status_history s tid = map snd (filter (\<lambda>e. fst e = tid) (status_log s))"

text \<open>
  \<open>start_training\<close>, with \<open>tid\<close> the fresh \<open>str(uuid.uuid4())\<close>; the task it creates runs
  \<open>_train_model\<close> afterwards.
\<close>

definition start_training ::
  "train_env \<Rightarrow> string \<Rightarrow> string \<Rightarrow> string \<Rightarrow> (string \<rightharpoonup> nat) option
     \<Rightarrow> training_service \<Rightarrow> training_service" where
  "start_training env tid path mtype hp s =
     s\<lparr>training_jobs := (training_jobs s)(tid \<mapsto>
          \<lparr>status = ''started'', job_model_type = mtype, dataset_path = path,
           hyperparameters = (case hp of None \<Rightarrow> Map.empty | Some h \<Rightarrow> h),
           start_time = utcnow env, progress = 0, metrics = Map.empty,
           job_training_results = None, job_model_version = None, end_time = None,
           job_error = None\<rparr>),
       status_log := status_log s @ [(tid, ''started'')]\<rparr>"

text \<open>\<open>f"user_{i:03d}"\<close> for \<open>i\<close> below 1000, and \<open>_get_training_user_ids\<close>.\<close>

definition digit_char :: "nat \<Rightarrow> char" where
  "digit_char d = char_of (48 + d)"

definition user_name :: "nat \<Rightarrow> string" where
  "user_name i =
     ''user_'' @ [digit_char (i div 100 mod 10), digit_char (i div 10 mod 10), digit_char (i mod 10)]"

definition get_training_user_ids :: "string \<Rightarrow> string list" where
  "get_training_user_ids path = map user_name [1..<51]"

definition create_model :: "string \<Rightarrow> (string \<rightharpoonup> nat) \<Rightarrow> error + forest_params" where
  "create_model mtype hp =
     (if mtype = ''baseline'' then
        Inr \<lparr>n_estimators = dict_get hp ''n_estimators'' 100,
             max_depth = dict_get hp ''max_depth'' 10,
             min_samples_split = None, min_samples_leaf = None, random_state = 42\<rparr>
      else if mtype = ''advanced'' then
        Inr \<lparr>n_estimators = dict_get hp ''n_estimators'' 200,
             max_depth = dict_get hp ''max_depth'' 15,
             min_samples_split = Some (dict_get hp ''min_samples_split'' 5),
             min_samples_leaf = Some (dict_get hp ''min_samples_leaf'' 2),
             random_state = 42\<rparr>
      else Inl (ValueError (''Unknown model type: '' @ mtype)))"

text \<open>
  The two branches of the \<open>try\<close> in \<open>_train_model\<close>. Each returns the exception that left
  the body, if any, with the service as it was at that moment.
\<close>

definition train_comprehensive ::
  "train_env \<Rightarrow> string \<Rightarrow> string list \<Rightarrow> training_service \<Rightarrow> error option \<times> training_service" where
  "train_comprehensive env tid user_ids s3 =
     (case train_comprehensive_model env user_ids 30 True of
        Inl e \<Rightarrow> (Some e, s3)
      | Inr results \<Rightarrow>
          (let s4 = update_job tid
                      (\<lambda>j. j\<lparr>job_training_results := Some results,
                             job_model_version :=
                               Some (''comprehensive_'' @ take 8 tid @ ''_'' @ utcnow_stamp env),
                             end_time := Some (utcnow env)\<rparr>)
                      (write_stage tid ''completed'' 100 s3)
           in case results of
                ResultsNotDict \<Rightarrow> (Some AttributeError, s4)
              | ResultsDict None \<Rightarrow> (None, s4)
              | ResultsDict (Some InfoNotDict) \<Rightarrow> (Some AttributeError, s4)
              | ResultsDict (Some (InfoDict m)) \<Rightarrow>
                  (None, update_job tid
                           (\<lambda>j. j\<lparr>metrics := (case m of None \<Rightarrow> Map.empty | Some mm \<Rightarrow> mm)\<rparr>)
                           s4)))"

definition train_legacy ::
  "train_env \<Rightarrow> string \<Rightarrow> job \<Rightarrow> training_service \<Rightarrow> error option \<times> training_service" where
  "train_legacy env tid job s3 =
     (let s4 = write_stage tid ''loading_data'' 20 s3
      in case load_training_data (tfiles env) (dataset_path job) of
           Inl e \<Rightarrow> (Some e, s4)
         | Inr (X, y) \<Rightarrow>
      (let s5 = write_stage tid ''preprocessing'' 40 s4
       in case train_test_split env X y of
            Inl e \<Rightarrow> (Some e, s5)
          | Inr (X_train, X_test, y_train, y_test) \<Rightarrow>
      (let s6 = write_stage tid ''training'' 60 s5
       in case bind_err (create_model (job_model_type job) (hyperparameters job))
                 (\<lambda>params. forest_fit env params X_train y_train) of
            Inl e \<Rightarrow> (Some e, s6)
          | Inr model \<Rightarrow>
      (let s7 = write_stage tid ''evaluating'' 80 s6
       in case bind_err (clf_predict model X_test) (\<lambda>y_pred. weighted_metrics env y_test y_pred) of
            Inl e \<Rightarrow> (Some e, s7)
          | Inr m \<Rightarrow>
      (let s8 = write_stage tid ''saving'' 90 (update_job tid (\<lambda>j. j\<lparr>metrics := m\<rparr>) s7);
           mv = ''legacy_'' @ take 8 tid @ ''_'' @ utcnow_stamp env;
           model_path = os_path_join models_dir (mv @ ''.joblib'')
       in case joblib_dump env model model_path of
            Some e \<Rightarrow> (Some e, s8)
          | None \<Rightarrow>
              (None, update_job tid
                       (\<lambda>j. j\<lparr>job_model_version := Some mv, end_time := Some (utcnow env)\<rparr>)
                       (write_stage tid ''completed'' 100 s8)))))))"

definition train_model_try ::
  "train_env \<Rightarrow> string \<Rightarrow> training_service \<Rightarrow> error option \<times> training_service" where
  "train_model_try env tid s0 =
     (case training_jobs s0 tid of
        None \<Rightarrow> (Some (KeyError tid), s0)
      | Some job \<Rightarrow>
          (let s1 = write_stage tid ''initializing'' 5 s0
           in case feature_pipeline_initialize env of
                Some e \<Rightarrow> (Some e, s1)
              | None \<Rightarrow>
                  (let s2 = write_stage tid ''loading_data'' 10 s1;
                       user_ids = get_training_user_ids (dataset_path job);
                       s3 = write_stage tid ''feature_engineering'' 30 s2
                   in if job_model_type job = ''comprehensive''
                      then train_comprehensive env tid user_ids s3
                      else train_legacy env tid job s3)))"

text \<open>
  \<open>_train_model\<close>: the handler marks the job failed and keeps the exception. Only a
  missing job record makes the handler itself raise.
\<close>

definition train_model ::
  "train_env \<Rightarrow> string \<Rightarrow> training_service \<Rightarrow> error option \<times> training_service" where
  "train_model env tid s0 =
     (case train_model_try env tid s0 of
        (None, s) \<Rightarrow> (None, s)
      | (Some e, s) \<Rightarrow>
          (case training_jobs s tid of
             None \<Rightarrow> (Some (KeyError tid), s)
           | Some j \<Rightarrow>
               (None, update_job tid (\<lambda>j. j\<lparr>job_error := Some e\<rparr>)
                        (write_status tid ''failed'' s))))"

text \<open>A whole job: \<open>start_training\<close> followed by its background task.\<close>

definition run_training ::
  "train_env \<Rightarrow> string \<Rightarrow> string \<Rightarrow> string \<Rightarrow> (string \<rightharpoonup> nat) option
     \<Rightarrow> training_service \<Rightarrow> training_service" where
  "run_training env tid path mtype hp s =
     snd (train_model env tid (start_training env tid path mtype hp s))"


section \<open>evaluate.py: the evaluation service\<close>

subsection \<open>Test data\<close>

definition test_feature_columns :: "string list" where
  "test_feature_columns =
     [''work_hours_per_week'', ''meeting_hours_per_week'', ''email_count_per_day'',
      ''stress_level'', ''workload_score'', ''work_life_balance'', ''team_size'',
      ''remote_work_percentage'', ''overtime_hours'', ''deadline_pressure'']"

definition get_feature_names :: "string list" where
  "get_feature_names =
     [''work_hours_per_week'', ''meeting_hours_per_week'', ''email_count_per_day'',
      ''stress_level'', ''workload_score'', ''work_life_balance'', ''team_size'',
      ''remote_work_percentage'', ''overtime_hours'', ''deadline_pressure'']"

definition generate_dummy_test_data :: "file_env \<Rightarrow> dataset" where
  "generate_dummy_test_data env =
     (let X = random_matrix env 123 200 in (X, generate_target X))"

definition load_test_data_try :: "file_env \<Rightarrow> string \<Rightarrow> error + dataset" where
  "load_test_data_try env test_dataset_path =
     (if \<not> path_exists env test_dataset_path then Inr (generate_dummy_test_data env)
      else bind_err
             (if endswith test_dataset_path ''.csv'' then read_csv env test_dataset_path
              else if endswith test_dataset_path ''.json'' then read_json env test_dataset_path
              else Inl (ValueError (''Unsupported file format: '' @ test_dataset_path)))
             (\<lambda>df.
           bind_err (select_columns df test_feature_columns) (\<lambda>cols.
           let X = transpose (fillna0 cols);
               y = (case burnout_risk df of Some l \<Rightarrow> l | None \<Rightarrow> generate_target X)
           in Inr (X, y))))"

definition load_test_data :: "file_env \<Rightarrow> string \<Rightarrow> error + dataset" where
  "load_test_data env test_dataset_path =
     (case load_test_data_try env test_dataset_path of
        Inr r \<Rightarrow> Inr r
      | Inl e \<Rightarrow> Inr (generate_dummy_test_data env))"

subsection \<open>\<open>_calculate_business_metrics\<close>\<close>

text \<open>
  \<open>sklearn.metrics.confusion_matrix(y_true, y_pred)\<close>: arguments of different lengths
  and empty arguments are refused with \<open>ValueError\<close>; otherwise the labels are the sorted
  distinct values of both arguments, and entry \<open>(i, j)\<close> counts the samples whose true
  label is the \<open>i\<close>-th and whose predicted label is the \<open>j\<close>-th.
\<close>

definition confusion_matrix :: "int list \<Rightarrow> int list \<Rightarrow> error + nat list list" where
  "confusion_matrix y_true y_pred =
     (if length y_true \<noteq> length y_pred
      then Inl (ValueError ''Found input variables with inconsistent numbers of samples'')
      else if y_true = []
      then Inl (ValueError ''Found empty input array'')
      else let labels = sorted_list_of_set (set (y_true @ y_pred))
           in Inr (map (\<lambda>t. map (\<lambda>p. count_list (zip y_true y_pred) (t, p)) labels) labels))"

text \<open>
  \<open>y_pred_proba[:, k]\<close> and \<open>y_pred_proba[y_pred == label, k]\<close> on a matrix given by its
  rows; a boolean mask must be as long as the matrix has rows.
\<close>

definition column :: "nat \<Rightarrow> real list list \<Rightarrow> error + real list" where
  "column k P =
     (if list_all (\<lambda>row. k < length row) P then Inr (map (\<lambda>row. row ! k) P) else Inl IndexError)"

definition masked_column :: "int \<Rightarrow> nat \<Rightarrow> int list \<Rightarrow> real list list \<Rightarrow> error + real list" where
  "masked_column label k y_pred P =
     (if length y_pred \<noteq> length P then Inl IndexError
      else bind_err (column k P) (\<lambda>col.
           Inr (map snd (filter (\<lambda>e. fst e = label) (zip y_pred col)))))"

definition np_mean :: "real list \<Rightarrow> real" where
  "np_mean xs = sum_list xs / real (length xs)"

record business_metrics =
  true_positive_rate :: real
  false_positive_rate :: real
  bm_precision :: real
  total_cost :: nat
  cost_per_prediction :: real
  risk_distribution :: "(nat \<times> nat \<times> nat) option"
  high_risk_percentage :: "real option"
  avg_confidence_positive :: "real option"
  avg_confidence_negative :: "real option"

text \<open>\<open>risk_distribution\<close> is (high\_risk, medium\_risk, low\_risk).\<close>

definition calculate_business_metrics ::
  "int list \<Rightarrow> int list \<Rightarrow> real list list option \<Rightarrow> error + business_metrics" where
  "calculate_business_metrics y_true y_pred y_pred_proba =
     bind_err (confusion_matrix y_true y_pred) (\<lambda>cm.
     let (tn, fp, fn, tp) =
           (case concat cm of [a, b, c, d] \<Rightarrow> (a, b, c, d) | _ \<Rightarrow> (0, 0, 0, 0));
         tpr = (if tp + fn > 0 then real tp / real (tp + fn) else 0);
         fpr = (if fp + tn > 0 then real fp / real (fp + tn) else 0);
         prec = (if tp + fp > 0 then real tp / real (tp + fp) else 0);
         cost_false_negative = 100;
         cost_false_positive = 10;
         total = (fn * cost_false_negative) + (fp * cost_false_positive);
         per_prediction = (if length y_true > 0 then real total / real (length y_true) else 0)
     in bind_err
          (case y_pred_proba of
             None \<Rightarrow> Inr None
           | Some P \<Rightarrow>
               bind_err (column 1 P) (\<lambda>p1.
               let high_risk_count = length (filter (\<lambda>p. p \<ge> 0.7) p1);
                   medium_risk_count = length (filter (\<lambda>p. p \<ge> 0.4 \<and> p < 0.7) p1);
                   low_risk_count = length (filter (\<lambda>p. p < 0.4) p1)
               in Inr (Some ((high_risk_count, medium_risk_count, low_risk_count),
                             (if length y_true > 0
                              then real high_risk_count / real (length y_true) * 100
                              else 0)))))
          (\<lambda>risk.
        bind_err
          (case y_pred_proba of
             None \<Rightarrow> Inr None
           | Some P \<Rightarrow>
               bind_err (masked_column 1 1 y_pred P) (\<lambda>positive_predictions.
               bind_err (masked_column 0 0 y_pred P) (\<lambda>negative_predictions.
               Inr (Some ((if length positive_predictions > 0
                           then np_mean positive_predictions else 0),
                          (if length negative_predictions > 0
                           then np_mean negative_predictions else 0))))))
          (\<lambda>reliability.
        Inr \<lparr>true_positive_rate = tpr, false_positive_rate = fpr, bm_precision = prec,
             total_cost = total, cost_per_prediction = per_prediction,
             risk_distribution = map_option fst risk,
             high_risk_percentage = map_option snd risk,
             avg_confidence_positive = map_option fst reliability,
             avg_confidence_negative = map_option snd reliability\<rparr>)))"

subsection \<open>\<open>_generate_evaluation_summary\<close>\<close>

text \<open>
  A strength or weakness is a fixed string, except the recall message, which formats the
  recall and the target into its text.
\<close>

datatype remark = Remark string | BelowRecallTarget real real

record evaluation_summary =
  target_recall_met :: bool
  recall_gap :: real
  performance_grade :: string
  recommendation :: string
  strengths :: "remark list"
  weaknesses :: "remark list"

definition generate_evaluation_summary :: "(string \<rightharpoonup> real) \<Rightarrow> real \<Rightarrow> evaluation_summary" where
  "generate_evaluation_summary ms target_recall =
     (let recall = dict_get ms ''recall'' 0;
          accuracy = dict_get ms ''accuracy'' 0;
          f1 = dict_get ms ''f1_score'' 0;
          (grade, advice) =
            (if accuracy \<ge> 0.9 \<and> recall \<ge> target_recall
               then (''A'', ''Model ready for production'')
             else if accuracy \<ge> 0.8 \<and> recall \<ge> target_recall * 0.9
               then (''B'', ''Model acceptable with monitoring'')
             else if accuracy \<ge> 0.7
               then (''C'', ''Model needs improvement'')
             else (''D'', ''Model not suitable for production''));
          (st1, wk1) =
            (if recall \<ge> target_recall then ([Remark ''Meets recall target''], [])
             else ([], [BelowRecallTarget recall target_recall]));
          (st2, wk2) =
            (if accuracy \<ge> 0.85 then (st1 @ [Remark ''High accuracy''], wk1)
             else if accuracy < 0.7 then (st1, wk1 @ [Remark ''Low accuracy''])
             else (st1, wk1));
          (st3, wk3) =
            (if f1 \<ge> 0.8 then (st2 @ [Remark ''Good F1 score''], wk2)
             else if f1 < 0.6 then (st2, wk2 @ [Remark ''Poor F1 score''])
             else (st2, wk2))
      in \<lparr>target_recall_met = (recall \<ge> target_recall),
          recall_gap = (if recall < target_recall then target_recall - recall else 0),
          performance_grade = grade, recommendation = advice,
          strengths = st3, weaknesses = wk3\<rparr>)"

subsection \<open>\<open>evaluate\<close>\<close>

text \<open>The explainability payload is opaque (\<open>'s\<close>); a failed analysis is kept as its error.\<close>

datatype 's shap_outcome = ShapNone | ShapResults 's | ShapError error

record 's evaluation =
  evaluation_id :: string
  ev_model_version :: string
  evaluation_date :: nat
  test_samples :: nat
  ev_model_type :: string
  ev_target_recall :: real
  ev_metrics :: "string \<rightharpoonup> real"
  ev_business_metrics :: business_metrics
  shap_analysis :: "'s shap_outcome"
  ev_summary :: evaluation_summary

text \<open>
  The collaborators of an evaluation: the file system, joblib, the absent
  \<open>ComprehensiveEvaluator\<close> and \<open>SHAPAnalyzer\<close>, and the clock.
\<close>

record 's eval_env =
  efiles :: file_env
  joblib_load :: "string \<Rightarrow> error + classifier"
  evaluate_model ::
    "classifier \<Rightarrow> real list list \<Rightarrow> int list \<Rightarrow> int list \<Rightarrow> real list list option \<Rightarrow> real
       \<Rightarrow> error + (string \<rightharpoonup> real)"
  analyze_model :: "classifier \<Rightarrow> real list list \<Rightarrow> string list \<Rightarrow> error + 's"
  eval_utcnow :: nat

record 's evaluation_service =
  evaluation_jobs :: "string \<rightharpoonup> 's evaluation"

text \<open>
  \<open>evaluate\<close>, with \<open>eid\<close> the fresh \<open>str(uuid.uuid4())\<close>. The \<open>except\<close> clause logs and
  re-raises; the result is stored by the last statement of the body only.
\<close>

definition evaluate ::
  "'s eval_env \<Rightarrow> string \<Rightarrow> string \<Rightarrow> string \<Rightarrow> bool \<Rightarrow> real \<Rightarrow> 's evaluation_service
     \<Rightarrow> (error + 's evaluation) \<times> 's evaluation_service" where
  "evaluate env eid mv test_dataset_path include_shap target_recall self =
     (let model_path = os_path_join models_dir (mv @ ''.joblib'')
      in if \<not> path_exists (efiles env) model_path
         then (Inl (ValueError (''Model '' @ mv @ '' not found'')), self)
         else
           (case
              bind_err (joblib_load env model_path) (\<lambda>model.
              bind_err (load_test_data (efiles env) test_dataset_path) (\<lambda>(X_test, y_test).
              bind_err (clf_predict model X_test) (\<lambda>y_pred.
              bind_err (case clf_predict_proba model of
                          None \<Rightarrow> Inr None
                        | Some pp \<Rightarrow> bind_err (pp X_test) (\<lambda>P. Inr (Some P)))
                (\<lambda>y_pred_proba.
              bind_err (evaluate_model env model X_test y_test y_pred y_pred_proba target_recall)
                (\<lambda>comprehensive_metrics.
              let shap_results =
                    (if include_shap \<and> clf_predict_proba model \<noteq> None
                     then (case analyze_model env model X_test get_feature_names of
                             Inr r \<Rightarrow> ShapResults r
                           | Inl e \<Rightarrow> ShapError e)
                     else ShapNone)
              in bind_err (calculate_business_metrics y_test y_pred y_pred_proba)
                   (\<lambda>business.
                 Inr \<lparr>evaluation_id = eid, ev_model_version = mv,
                      evaluation_date = eval_utcnow env, test_samples = length X_test,
                      ev_model_type = clf_type_name model, ev_target_recall = target_recall,
                      ev_metrics = comprehensive_metrics, ev_business_metrics = business,
                      shap_analysis = shap_results,
                      ev_summary =
                        generate_evaluation_summary comprehensive_metrics target_recall\<rparr>))))))
            of
              Inl e \<Rightarrow> (Inl e, self)
            | Inr ev \<Rightarrow>
                (Inr ev, self\<lparr>evaluation_jobs := (evaluation_jobs self)(eid \<mapsto> ev)\<rparr>)))"


section \<open>The status order of the specification\<close>

text \<open>
  The order the specification gives to the statuses of a training job:
  started, initializing, loading\_data, feature\_engineering or preprocessing, training,
  evaluating, saving, and the terminal completed or failed. An unknown status has no
  place in it.
\<close>

definition spec_status_rank :: "string \<Rightarrow> nat option" where
  "spec_status_rank st =
     (if st = ''started'' then Some 0
      else if st = ''initializing'' then Some 1
      else if st = ''loading_data'' then Some 2
      else if st = ''feature_engineering'' \<or> st = ''preprocessing'' then Some 3
      else if st = ''training'' then Some 4
      else if st = ''evaluating'' then Some 5
      else if st = ''saving'' then Some 6
      else if st = ''completed'' \<or> st = ''failed'' then Some 7
      else None)"

definition spec_terminal :: "string \<Rightarrow> bool" where
  "spec_terminal st = (st = ''completed'' \<or> st = ''failed'')"

text \<open>
  A history follows the specification when every status is known, no status is followed
  by one that comes earlier in the order, and nothing follows a terminal status.
\<close>

fun spec_forward :: "string list \<Rightarrow> bool" where
  "spec_forward [] = True"
| "spec_forward [a] = (spec_status_rank a \<noteq> None)"
| "spec_forward (a # b # rest) =
     (case (spec_status_rank a, spec_status_rank b) of
        (Some i, Some j) \<Rightarrow> i \<le> j \<and> \<not> spec_terminal a \<and> spec_forward (b # rest)
      | _ \<Rightarrow> False)"

text \<open>
  The confusion-matrix counts of the specification for labels 0 and 1: a false negative
  is a sample of class 1 predicted 0, a false positive a sample of class 0 predicted 1.
\<close>

definition false_negatives :: "int list \<Rightarrow> int list \<Rightarrow> nat" where
  "false_negatives y_true y_pred = count_list (zip y_true y_pred) (1, 0)"

definition false_positives :: "int list \<Rightarrow> int list \<Rightarrow> nat" where
  "false_positives y_true y_pred = count_list (zip y_true y_pred) (0, 1)"


section \<open>Example inputs\<close>

text \<open>
  A trained stand-alone model whose forest answers class 1 with probabilities (0.35, 0.65),
  and the high-risk employee of \<open>train_and_evaluate_model\<close>.
\<close>

definition example_forest :: burnout_prediction_model where
  "example_forest =
     \<lparr>is_trained = True, model_feature_names = feature_names,
      scaler_transform = (\<lambda>X. X),
      forest_predict = (\<lambda>X. map (\<lambda>row. 1) X),
      forest_predict_proba = (\<lambda>X. map (\<lambda>row. [0.35, 0.65]) X)\<rparr>"

definition example_numbers :: "string \<rightharpoonup> real" where
  "example_numbers =
     map_of [(''work_hours_per_week'', 60), (''meeting_hours_per_week'', 25),
             (''email_count_per_day'', 50), (''stress_level'', 8), (''workload_score'', 9),
             (''work_life_balance'', 2), (''overtime_hours'', 20), (''deadline_pressure'', 9),
             (''team_size'', 12), (''remote_work_percentage'', 20)]"

text \<open>A file system whose only file is \<open>data.xlsx\<close>.\<close>

definition example_files :: file_env where
  "example_files =
     \<lparr>path_exists = (\<lambda>p. p = ''data.xlsx''),
      read_csv = (\<lambda>p. Inl (LibraryError ''cannot parse'')),
      read_json = (\<lambda>p. Inl (LibraryError ''cannot parse'')),
      np_random_rand = (\<lambda>seed i j. 0)\<rparr>"

definition example_classifier :: classifier where
  "example_classifier =
     \<lparr>clf_predict = (\<lambda>X. Inr (map (\<lambda>row. 0) X)),
      clf_predict_proba = Some (\<lambda>X. Inr (map (\<lambda>row. [1, 0]) X)),
      clf_type_name = ''RandomForestClassifier''\<rparr>"

text \<open>An evaluation service whose models directory holds \<open>v1.joblib\<close> only.\<close>

definition example_eval_env :: "unit eval_env" where
  "example_eval_env =
     \<lparr>efiles = example_files\<lparr>path_exists := (\<lambda>p. p = ''models/v1.joblib'')\<rparr>,
      joblib_load = (\<lambda>p. Inr example_classifier),
      evaluate_model = (\<lambda>m X y yp pp t. Inr Map.empty),
      analyze_model = (\<lambda>m X names. Inr ()),
      eval_utcnow = 0\<rparr>"

text \<open>
  A served classifier that predicts the label 1 and the probabilities (0.35, 0.65) for
  every row, as a fitted random forest does when class 1 wins.
\<close>

definition example_served_model :: served_model where
  "example_served_model =
     \<lparr>predict_fn = (\<lambda>X. Inr (map (\<lambda>row. 1) X)),
      predict_proba_fn = (\<lambda>X. Inr (map (\<lambda>row. [0.35, 0.65]) X))\<rparr>"

definition example_prediction_service :: prediction_service where
  "example_prediction_service =
     \<lparr>models = [''v1'' \<mapsto> example_served_model], model_versions = [''v1'']\<rparr>"

text \<open>
  A training environment in which every library call succeeds and the advanced pipeline
  returns \<open>None\<close>.
\<close>

definition example_train_env :: train_env where
  "example_train_env =
     \<lparr>tfiles = example_files,
      feature_pipeline_initialize = None,
      train_comprehensive_model = (\<lambda>users days opt. Inr ResultsNotDict),
      train_test_split = (\<lambda>X y. Inr (X, X, y, y)),
      forest_fit = (\<lambda>params X y. Inr example_classifier),
      weighted_metrics = (\<lambda>y_true y_pred. Inr Map.empty),
      joblib_dump = (\<lambda>m p. None),
      utcnow = 0,
      utcnow_stamp = ''20240101_000000''\<rparr>"

definition empty_training_service :: training_service where
  "empty_training_service = \<lparr>training_jobs = Map.empty, status_log = []\<rparr>"


section \<open>The prediction service\<close>

subsection \<open>Risk score and confidence\<close>

text \<open>
  What a returned prediction holds: the score is the first entry of \<open>model.predict\<close> on
  the one-row matrix of the feature vector, the confidence the largest entry of the first
  row of \<open>model.predict_proba\<close>, and the level the step function of the score.
\<close>

lemma predict_result:
  assumes "predict self uuid now uid fs mv = Inr r"
  shows "\<exists>model vec scores rows row.
           models self (model_version r) = Some model \<and>
           prepare_features fs = Inr vec \<and>
           predict_fn model [vec] = Inr scores \<and>
           py_index scores 0 = Inr (risk_score r) \<and>
           predict_proba_fn model [vec] = Inr rows \<and>
           py_index rows 0 = Inr row \<and>
           py_max row = Inr (confidence r) \<and>
           risk_level r = determine_risk_level (risk_score r)"
  using assms
  by (auto simp: predict_def bind_err_def Let_def split: option.splits sum.splits)

text \<open>
  C1. The claim: the risk score of a prediction is the model's probability of class 1 and
  the confidence the larger of the two probabilities. For a model that predicts label 1
  with probabilities (0.35, 0.65), \<open>predict\<close> returns the confidence 0.65 but the risk
  score 1, the label, and so the level "critical" where the probability 0.65 is "high".
\<close>

theorem predict_scores_with_label:
  "bind_err (prepare_features Map.empty) (\<lambda>vec. predict_proba_fn example_served_model [vec])
     = Inr [[0.35, 0.65]] \<and>
   map_sum id (\<lambda>r. (risk_score r, confidence r, risk_level r))
     (predict example_prediction_service ''p1'' 0 ''u1'' Map.empty ''latest'')
     = Inr (1, 0.65, ''critical'') \<and>
   determine_risk_level 0.65 = ''high''"
  by (simp add: predict_def example_prediction_service_def example_served_model_def
        prepare_features_def expected_features_def
        bind_err_def py_index_def determine_risk_level_def analyze_factors_def
        dict_get_def py_gt_def py_lt_def Let_def)

subsection \<open>Feature order\<close>

text \<open>
  C2, as amended. The order of the ten names at inference is the order of the training
  service's \<open>feature_columns\<close> (and of the evaluation service's); the stand-alone model's
  \<open>feature_names\<close> has the same ten names with overtime\_hours and deadline\_pressure
  before team\_size and remote\_work\_percentage, and agrees on the first six positions.
\<close>

theorem inference_order_matches_training_service:
  "expected_features = feature_columns \<and>
   expected_features = test_feature_columns \<and>
   take 6 feature_names = take 6 expected_features \<and>
   feature_names = map (\<lambda>i. expected_features ! i) [0, 1, 2, 3, 4, 5, 8, 9, 6, 7]"
  by (simp add: expected_features_def feature_names_def feature_columns_def
        test_feature_columns_def)

text \<open>
  C2 as stated, that the three lists are equal element by element, fails at position 6.
\<close>

theorem feature_order_counterexample:
  "expected_features ! 6 = ''team_size'' \<and> feature_names ! 6 = ''overtime_hours'' \<and>
   \<not> (expected_features = feature_names \<and> feature_names = feature_columns)"
  by (simp add: expected_features_def feature_names_def feature_columns_def)

subsection \<open>Risk level\<close>

lemma predict_single_level:
  "predict_single m fs = Inr r \<Longrightarrow> sp_risk_level r = determine_risk_level (sp_risk_score r)"
  unfolding predict_single_def bind_err_def Let_def determine_risk_level_def
  by (auto split: if_splits sum.splits)

text \<open>
  C5. The risk level is the step function of the score: [0, 0.3) is low, [0.3, 0.6)
  medium, [0.6, 0.8) high, and 0.8 or more critical; \<open>predict_single\<close> gives its score
  the same level.
\<close>

theorem risk_level_step_function:
  "(0 \<le> s \<and> s < 0.3 \<longrightarrow> determine_risk_level s = ''low'') \<and>
   (0.3 \<le> s \<and> s < 0.6 \<longrightarrow> determine_risk_level s = ''medium'') \<and>
   (0.6 \<le> s \<and> s < 0.8 \<longrightarrow> determine_risk_level s = ''high'') \<and>
   (0.8 \<le> s \<longrightarrow> determine_risk_level s = ''critical'') \<and>
   (predict_single m fs = Inr r \<longrightarrow> sp_risk_level r = determine_risk_level (sp_risk_score r))"
  using predict_single_level [of m fs r]
  by (simp add: determine_risk_level_def)

lemma example_forest_prediction:
  "predict_single example_forest example_numbers =
     Inr \<lparr>sp_prediction = 1, sp_risk_score = 0.65, sp_risk_level = ''high'',
          sp_confidence = 0.65\<rparr>"
  by (simp add: predict_single_def example_forest_def example_numbers_def feature_names_def
        bind_err_def py_index_def)

text \<open>C5 at the four boundaries, at 1, and for the example model.\<close>

theorem risk_level_step_function_witness:
  "determine_risk_level 0 = ''low'' \<and>
   determine_risk_level 0.3 = ''medium'' \<and>
   determine_risk_level 0.6 = ''high'' \<and>
   determine_risk_level 0.8 = ''critical'' \<and>
   determine_risk_level 1 = ''critical'' \<and>
   predict_single example_forest example_numbers =
     Inr \<lparr>sp_prediction = 1, sp_risk_score = 0.65, sp_risk_level = ''high'',
          sp_confidence = 0.65\<rparr> \<and>
   determine_risk_level 0.65 = ''high''"
  using risk_level_step_function [of 0 example_forest example_numbers
          "\<lparr>sp_prediction = 1, sp_risk_score = 0.65, sp_risk_level = ''high'',
            sp_confidence = 0.65\<rparr>"]
        risk_level_step_function [of "0.3"] risk_level_step_function [of "0.6"]
        risk_level_step_function [of "0.8"] risk_level_step_function [of 1]
        example_forest_prediction
  by simp

subsection \<open>Feature vector\<close>

text \<open>The length in bits of a number, and what rounding to 53 bits keeps.\<close>

lemma bit_length_0: "bit_length 0 = 0"
  by (simp add: bit_length.simps [of 0])

lemma bit_length_pos: "0 < n \<Longrightarrow> bit_length n = Suc (bit_length (n div 2))"
  by (simp add: bit_length.simps [of n])

lemma bit_length_bounds:
  "0 < n \<Longrightarrow> 2 ^ (bit_length n - 1) \<le> n \<and> n < 2 ^ bit_length n"
proof (induction n rule: bit_length.induct)
  case (1 n)
  have bl: "bit_length n = Suc (bit_length (n div 2))"
    using 1 by (simp add: bit_length_pos)
  show ?case
  proof (cases "n div 2 = 0")
    case True
    then show ?thesis using 1 bl by (simp add: bit_length_0)
  next
    case False
    with 1 have ih: "2 ^ (bit_length (n div 2) - 1) \<le> n div 2"
      "n div 2 < 2 ^ bit_length (n div 2)"
      by simp_all
    obtain k where k: "bit_length (n div 2) = Suc k"
      using False by (auto simp: bit_length_pos)
    have "(2::nat) ^ (bit_length n - 1) = 2 * 2 ^ (bit_length (n div 2) - 1)"
      using k bl by simp
    also have "\<dots> \<le> 2 * (n div 2)" using ih by simp
    also have "\<dots> \<le> n" by simp
    finally have lo: "2 ^ (bit_length n - 1) \<le> n" .
    have "n < 2 * (n div 2) + 2" by presburger
    also have "\<dots> \<le> 2 * 2 ^ bit_length (n div 2)" using ih by simp
    finally have hi: "n < 2 ^ bit_length n" using bl by simp
    from lo hi show ?thesis by simp
  qed
qed

lemma bit_length_le: "n < 2 ^ k \<Longrightarrow> bit_length n \<le> k"
proof (cases "n = 0")
  case True
  then show ?thesis by (simp add: bit_length_0)
next
  case False
  assume "n < 2 ^ k"
  moreover have "2 ^ (bit_length n - 1) \<le> n" using False bit_length_bounds by simp
  ultimately have "(2::nat) ^ (bit_length n - 1) < 2 ^ k" by (rule le_less_trans [rotated])
  then have "bit_length n - 1 < k" by (rule power_less_imp_less_exp [rotated]) simp
  then show ?thesis by simp
qed

lemma bit_length_gt: "2 ^ k \<le> n \<Longrightarrow> k < bit_length n"
proof -
  assume a: "2 ^ k \<le> n"
  from a have "0 < n" by (cases "n = 0") simp_all
  then have "n < 2 ^ bit_length n" using bit_length_bounds by simp
  with a have "(2::nat) ^ k < 2 ^ bit_length n" by (rule le_less_trans)
  then show ?thesis by (rule power_less_imp_less_exp [rotated]) simp
qed

lemma round_to_double_small: "n < 2 ^ 53 \<Longrightarrow> round_to_double n = n"
  using bit_length_le [of n 53] by (simp add: round_to_double_def Let_def)

lemma round_to_double_lower:
  assumes e: "53 < bit_length n"
  shows "2 ^ (bit_length n - 1) \<le> round_to_double n"
proof -
  define s where "s = bit_length n - 53"
  define q where "q = n div 2 ^ s"
  have npos: "0 < n" using e by (cases "n = 0") (simp_all add: bit_length_0)
  then have lo: "2 ^ (bit_length n - 1) \<le> n" using bit_length_bounds by simp
  have split: "bit_length n - 1 = 52 + s" using e by (simp add: s_def)
  have pw: "(2::nat) ^ (bit_length n - 1) = 2 ^ 52 * 2 ^ s"
    unfolding split by (rule power_add)
  have "2 ^ 52 * 2 ^ s \<le> n" using lo pw by simp
  then have "2 ^ 52 \<le> q"
    unfolding q_def by (simp add: less_eq_div_iff_mult_less_eq)
  then have base: "2 ^ 52 * 2 ^ s \<le> q * 2 ^ s" by (rule mult_le_mono1)
  also have "\<dots> \<le> (q + 1) * 2 ^ s" by simp
  finally have up: "2 ^ 52 * 2 ^ s \<le> (q + 1) * 2 ^ s" .
  have rd: "round_to_double n = q * 2 ^ s \<or> round_to_double n = (q + 1) * 2 ^ s"
    using e by (auto simp: round_to_double_def Let_def s_def q_def)
  then show ?thesis
    unfolding pw using base up by auto
qed

lemma round_to_double_large:
  assumes "2 ^ 1024 \<le> n"
  shows "2 ^ 1024 \<le> round_to_double n"
proof -
  have e: "1024 < bit_length n" using assms by (rule bit_length_gt)
  then have "1024 \<le> bit_length n - 1" by simp
  then have "(2::nat) ^ 1024 \<le> 2 ^ (bit_length n - 1)"
    by (rule power_increasing) simp
  also have "\<dots> \<le> round_to_double n"
    using e by (intro round_to_double_lower) simp
  finally show ?thesis .
qed

lemma nat_abs_less: "\<bar>i\<bar> < 2 ^ k \<Longrightarrow> nat \<bar>i\<bar> < 2 ^ k"
  by (simp add: nat_less_iff)

lemma nat_abs_ge: "2 ^ k \<le> \<bar>i\<bar> \<Longrightarrow> 2 ^ k \<le> nat \<bar>i\<bar>"
  by (simp add: le_nat_iff)

text \<open>
  \<open>float(i)\<close> is exact for an integer below \<open>2 ^ 53\<close> in magnitude and raises for one of
  \<open>2 ^ 1024\<close> or more; \<open>float(2 ** 53 + 1)\<close> is rounded to \<open>2 ** 53\<close>.
\<close>

lemma float_of_int_exact:
  assumes "\<bar>i\<bar> < 2 ^ 53"
  shows "float_of_int i = Inr (of_int i)"
proof -
  have small: "nat \<bar>i\<bar> < 2 ^ 53" using assms by (rule nat_abs_less)
  then have r: "round_to_double (nat \<bar>i\<bar>) = nat \<bar>i\<bar>" by (rule round_to_double_small)
  have "(2::nat) ^ 53 \<le> 2 ^ 1024" by (rule power_increasing) simp_all
  with small have "nat \<bar>i\<bar> < 2 ^ 1024" by (rule less_le_trans)
  then have "\<not> 2 ^ 1024 \<le> round_to_double (nat \<bar>i\<bar>)"
    unfolding r by (simp only: not_le)
  then show ?thesis
    unfolding float_of_int_def Let_def r by (auto simp del: power_numeral)
qed

lemma float_of_int_overflow:
  assumes "2 ^ 1024 \<le> \<bar>i\<bar>"
  shows "float_of_int i = Inl OverflowError"
proof -
  have "2 ^ 1024 \<le> nat \<bar>i\<bar>" using assms by (rule nat_abs_ge)
  then have "2 ^ 1024 \<le> round_to_double (nat \<bar>i\<bar>)" by (rule round_to_double_large)
  then show ?thesis unfolding float_of_int_def Let_def by (simp only: if_True)
qed

lemma float_of_int_rounds: "float_of_int (2 ^ 53 + 1) = Inr (2 ^ 53)"
proof -
  define n :: nat where "n = 2 ^ 53 + 1"
  have "(2::nat) ^ 53 \<le> n" by (simp add: n_def)
  then have lo: "53 < bit_length n" by (rule bit_length_gt)
  have "n < 2 ^ 54" by (simp add: n_def)
  then have "bit_length n \<le> 54" by (rule bit_length_le)
  with lo have e: "bit_length n = 54" by simp
  have r: "round_to_double n = 2 ^ 53"
    unfolding round_to_double_def Let_def e by (simp add: n_def)
  have n: "nat \<bar>2 ^ 53 + 1\<bar> = n" by (simp add: n_def)
  show ?thesis
    unfolding float_of_int_def Let_def n r by simp
qed

text \<open>
  When every integer of the mapping is below \<open>2 ^ 53\<close> in magnitude, \<open>_prepare_features\<close>
  returns the ten entries in the order of \<open>expected_features\<close>: 0.0 for a missing or
  non-numeric field, the number itself for a numeric one.
\<close>

lemma prepare_loop_in_range:
  assumes "\<And>n i. n \<in> set names \<Longrightarrow> f n = Some (PyInt i) \<Longrightarrow> \<bar>i\<bar> < 2 ^ 53"
  shows "prepare_loop names f acc =
           Inr (acc @ map (\<lambda>n. case f n of None \<Rightarrow> 0
                           | Some v \<Rightarrow> if is_int_or_float v then py_number v else 0) names)"
  using assms
proof (induction names arbitrary: acc)
  case Nil
  then show ?case by simp
next
  case (Cons n names)
  have rest: "\<And>acc'. prepare_loop names f acc' =
           Inr (acc' @ map (\<lambda>n. case f n of None \<Rightarrow> 0
                            | Some v \<Rightarrow> if is_int_or_float v then py_number v else 0) names)"
    by (rule Cons.IH) (use Cons.prems in auto)
  show ?case
  proof (cases "f n")
    case None
    then show ?thesis by (simp add: dict_get_def rest)
  next
    case (Some v)
    show ?thesis
    proof (cases v)
      case (PyInt i)
      with Some have "f n = Some (PyInt i)" by simp
      then have "\<bar>i\<bar> < 2 ^ 53" by (rule Cons.prems [rotated]) simp
      then have "float_of_int i = Inr (of_int i)" by (rule float_of_int_exact)
      with Some PyInt show ?thesis by (simp add: dict_get_def rest)
    qed (use Some in \<open>simp_all add: dict_get_def rest\<close>)
  qed
qed

lemma prepare_features_in_range:
  assumes "\<And>n i. f n = Some (PyInt i) \<Longrightarrow> \<bar>i\<bar> < 2 ^ 53"
  shows "prepare_features f =
           Inr (map (\<lambda>n. case f n of None \<Rightarrow> 0
                     | Some v \<Rightarrow> if is_int_or_float v then py_number v else 0)
                  expected_features)"
    and "\<exists>vec. prepare_features f = Inr vec \<and> length vec = 10"
proof -
  show a: "prepare_features f =
           Inr (map (\<lambda>n. case f n of None \<Rightarrow> 0
                     | Some v \<Rightarrow> if is_int_or_float v then py_number v else 0)
                  expected_features)"
    unfolding prepare_features_def using assms by (subst prepare_loop_in_range) simp_all
  show "\<exists>vec. prepare_features f = Inr vec \<and> length vec = 10"
    unfolding a by (simp add: expected_features_def)
qed

lemma prepare_features_example:
  "prepare_features [''stress_level'' \<mapsto> PyInt 8, ''team_size'' \<mapsto> PyStr ''many'',
                     ''deadline_pressure'' \<mapsto> PyFloat 2.5]
     = Inr [0, 0, 0, 8, 0, 0, 0, 0, 0, 2.5]"
  by (subst prepare_features_in_range) (auto simp: expected_features_def split: if_splits)

text \<open>
  C6. The claim: \<open>_prepare_features\<close> is total and returns ten floats for every mapping.
  The integer \<open>10 ** 400\<close> passes the \<open>isinstance\<close> test, \<open>float\<close> raises
  \<open>OverflowError\<close> on it, and the exception leaves the function: no vector is returned.
\<close>

theorem prepare_features_overflow:
  "is_int_or_float (PyInt (10 ^ 400)) \<and>
   prepare_features [''work_hours_per_week'' \<mapsto> PyInt (10 ^ 400)] = Inl OverflowError"
proof -
  have "(2::int) ^ 1024 \<le> \<bar>10 ^ 400\<bar>" by simp
  then have "float_of_int (10 ^ 400) = Inl OverflowError" by (rule float_of_int_overflow)
  then show ?thesis
    by (simp add: prepare_features_def expected_features_def dict_get_def)
qed

subsection \<open>Recommendations\<close>

text \<open>
  C9. The recommendations are the fixed items of the level (2 for low, 3 for medium, 4
  for high, 4 for critical) followed by one item for each of the keys excessive\_hours,
  high\_stress, poor\_work\_life\_balance that \<open>factors\<close> has, in this order; level high
  with the only factor excessive\_hours gives the four high-level items and then the
  boundary-setting tip.
\<close>

theorem generate_recommendations_fixed:
  "length (generate_recommendations ''low'' Map.empty) = 2 \<and>
   length (generate_recommendations ''medium'' Map.empty) = 3 \<and>
   length (generate_recommendations ''high'' Map.empty) = 4 \<and>
   length (generate_recommendations ''critical'' Map.empty) = 4 \<and>
   generate_recommendations lvl fs =
     generate_recommendations lvl Map.empty
       @ (if ''excessive_hours'' \<in> dom fs then [''Set strict work hour boundaries''] else [])
       @ (if ''high_stress'' \<in> dom fs
          then [''Implement daily stress reduction activities''] else [])
       @ (if ''poor_work_life_balance'' \<in> dom fs
          then [''Create clear boundaries between work and personal time''] else []) \<and>
   generate_recommendations ''high'' [''excessive_hours'' \<mapsto> x] =
     [''Urgent: Reduce workload and work hours'',
      ''Schedule regular time off'',
      ''Consider speaking with your manager about workload'',
      ''Seek professional help if needed'',
      ''Set strict work hour boundaries'']"
  by (simp add: generate_recommendations_def)

text \<open>C9 for level medium with the factors poor\_work\_life\_balance and high\_stress.\<close>

theorem generate_recommendations_fixed_witness:
  "generate_recommendations ''medium''
     [''poor_work_life_balance'' \<mapsto> True, ''high_stress'' \<mapsto> True] =
     [''Consider reducing work hours if possible'',
      ''Take regular breaks throughout the day'',
      ''Practice stress management techniques'',
      ''Implement daily stress reduction activities'',
      ''Create clear boundaries between work and personal time'']"
  using generate_recommendations_fixed
          [of "''medium''" "[''poor_work_life_balance'' \<mapsto> True, ''high_stress'' \<mapsto> True]"]
  by (simp add: generate_recommendations_def)

subsection \<open>Factors\<close>

text \<open>
  C10. When the key work\_life\_balance is absent, every mapping of factors that
  \<open>_analyze_factors\<close> returns has poor\_work\_life\_balance with the value 0; and it
  returns whenever the three fields compared before it are absent or numbers.
\<close>

theorem missing_work_life_balance_is_poor:
  assumes "features ''work_life_balance'' = None"
  shows "(\<forall>fs. analyze_factors features s = Inr fs \<longrightarrow>
            fs ''poor_work_life_balance'' =
              Some \<lparr>fvalue = PyInt 0, impact = ''high'',
                    description = ''Poor work-life balance''\<rparr>)
         \<and> (list_all (\<lambda>k. case features k of None \<Rightarrow> True | Some v \<Rightarrow> is_int_or_float v)
               [''work_hours_per_week'', ''stress_level'', ''workload_score'']
            \<longrightarrow> (\<exists>fs. analyze_factors features s = Inr fs))"
  using assms
  by (auto simp: analyze_factors_def bind_err_def Let_def dict_get_def py_gt_def py_lt_def
           split: sum.splits if_splits option.splits)

text \<open>C10 for the empty mapping.\<close>

theorem missing_work_life_balance_is_poor_witness:
  "(Map.empty :: features) ''work_life_balance'' = None \<and>
   (case analyze_factors Map.empty 0 of
      Inr fs \<Rightarrow> fs ''poor_work_life_balance'' =
                  Some \<lparr>fvalue = PyInt 0, impact = ''high'',
                        description = ''Poor work-life balance''\<rparr>
    | Inl e \<Rightarrow> False)"
  using missing_work_life_balance_is_poor [of Map.empty 0]
  by (auto split: sum.splits)


section \<open>Dataset loading\<close>

text \<open>
  C3, as amended. For a path that exists and ends neither in .csv nor in .json, the body
  of the loader raises the unsupported-format \<open>ValueError\<close>, the loader's own handler
  answers it, and the load returns the synthetic dataset (seed 42 and 1000 samples for
  training, seed 123 and 200 samples for testing): no error reaches the caller.
\<close>

theorem unsupported_extension_falls_back:
  assumes "path_exists env p" and "\<not> endswith p ''.csv''" and "\<not> endswith p ''.json''"
  shows "load_training_data_try env p = Inl (ValueError (''Unsupported file format: '' @ p)) \<and>
         load_training_data env p = Inr (generate_dummy_data env) \<and>
         load_test_data_try env p = Inl (ValueError (''Unsupported file format: '' @ p)) \<and>
         load_test_data env p = Inr (generate_dummy_test_data env)"
  using assms
  by (simp add: load_training_data_def load_training_data_try_def load_test_data_def
        load_test_data_try_def bind_err_def)

text \<open>C3 as amended, for the existing file \<open>data.xlsx\<close>.\<close>

theorem unsupported_extension_falls_back_witness:
  "path_exists example_files ''data.xlsx'' \<and>
   \<not> endswith ''data.xlsx'' ''.csv'' \<and> \<not> endswith ''data.xlsx'' ''.json'' \<and>
   load_training_data example_files ''data.xlsx'' = Inr (generate_dummy_data example_files) \<and>
   load_test_data example_files ''data.xlsx'' = Inr (generate_dummy_test_data example_files)"
proof -
  have e: "path_exists example_files ''data.xlsx''"
    by (simp add: example_files_def)
  have c: "\<not> endswith ''data.xlsx'' ''.csv''" and j: "\<not> endswith ''data.xlsx'' ''.json''"
    by (simp_all add: endswith_def)
  show ?thesis
    using unsupported_extension_falls_back [OF e c j] e c j by simp
qed

text \<open>
  C3 as stated, that such a load fails with an error for its caller, is false for
  \<open>data.xlsx\<close>: both loaders return a dataset.
\<close>

theorem unsupported_extension_counterexample:
  "path_exists example_files ''data.xlsx'' \<and>
   \<not> endswith ''data.xlsx'' ''.csv'' \<and> \<not> endswith ''data.xlsx'' ''.json'' \<and>
   \<not> isl (load_training_data example_files ''data.xlsx'') \<and>
   \<not> isl (load_test_data example_files ''data.xlsx'')"
  by (simp add: example_files_def endswith_def load_training_data_def load_test_data_def
           split: sum.splits)

text \<open>Neither loader ever raises.\<close>

lemma load_training_data_returns: "\<exists>d. load_training_data env p = Inr d"
  by (simp add: load_training_data_def split: sum.splits)

lemma load_test_data_returns: "\<exists>d. load_test_data env p = Inr d"
  by (simp add: load_test_data_def split: sum.splits)


section \<open>Training jobs\<close>

lemma status_log_update_job [simp]: "status_log (update_job tid f s) = status_log s"
  by (simp add: update_job_def split: option.splits)

lemma status_log_write_status [simp]:
  "status_log (write_status tid st s) = status_log s @ [(tid, st)]"
  by (simp add: write_status_def)

lemma status_log_write_stage [simp]:
  "status_log (write_stage tid st n s) = status_log s @ [(tid, st)]"
  by (simp add: write_stage_def)

lemma job_update_job [simp]:
  "training_jobs (update_job tid f s) tid = map_option f (training_jobs s tid)"
  by (simp add: update_job_def split: option.splits)

lemma job_write_status [simp]:
  "training_jobs (write_status tid st s) tid =
     map_option (\<lambda>j. j\<lparr>status := st\<rparr>) (training_jobs s tid)"
  by (simp add: write_status_def)

lemma job_write_stage [simp]:
  "training_jobs (write_stage tid st n s) tid =
     map_option (\<lambda>j. j\<lparr>status := st, progress := n\<rparr>) (training_jobs s tid)"
  by (simp add: write_stage_def option.map_comp comp_def)

lemma history_update_job [simp]:
  "job_status_history (update_job tid f s) tid' = job_status_history s tid'"
  by (simp add: job_status_history_def)

lemma history_write_status [simp]:
  "job_status_history (write_status tid st s) tid = job_status_history s tid @ [st]"
  by (simp add: job_status_history_def)

lemma history_write_stage [simp]:
  "job_status_history (write_stage tid st n s) tid = job_status_history s tid @ [st]"
  by (simp add: job_status_history_def)

lemma history_start_training [simp]:
  "job_status_history (start_training env tid path mtype hp s) tid
     = job_status_history s tid @ [''started'']"
  by (simp add: job_status_history_def start_training_def)

lemma job_start_training [simp]:
  "training_jobs (start_training env tid path mtype hp s) tid =
     Some \<lparr>status = ''started'', job_model_type = mtype, dataset_path = path,
           hyperparameters = (case hp of None \<Rightarrow> Map.empty | Some h \<Rightarrow> h),
           start_time = utcnow env, progress = 0, metrics = Map.empty,
           job_training_results = None, job_model_version = None, end_time = None,
           job_error = None\<rparr>"
  by (simp add: start_training_def)

text \<open>
  Every job of a model type other than "comprehensive" whose pipeline initialisation
  succeeds writes loading\_data a second time, after feature\_engineering.
\<close>

lemma train_legacy_history:
  "\<exists>rest. job_status_history (snd (train_legacy env tid job s3)) tid
            = job_status_history s3 tid @ ''loading_data'' # rest"
  by (auto simp: train_legacy_def Let_def split: sum.splits prod.splits option.splits)

lemma legacy_job_reloads:
  assumes "training_jobs s0 tid = Some job"
    and "job_model_type job \<noteq> ''comprehensive''"
    and "feature_pipeline_initialize env = None"
  shows "\<exists>rest. job_status_history (snd (train_model env tid s0)) tid
           = job_status_history s0 tid
               @ [''initializing'', ''loading_data'', ''feature_engineering'', ''loading_data'']
               @ rest"
proof -
  let ?s3 = "write_stage tid ''feature_engineering'' 30
               (write_stage tid ''loading_data'' 10 (write_stage tid ''initializing'' 5 s0))"
  have try_eq: "train_model_try env tid s0 = train_legacy env tid job ?s3"
    using assms by (simp add: train_model_try_def Let_def)
  obtain rest where rest:
    "job_status_history (snd (train_legacy env tid job ?s3)) tid
       = job_status_history ?s3 tid @ ''loading_data'' # rest"
    using train_legacy_history by blast
  obtain r s where rs: "train_legacy env tid job ?s3 = (r, s)"
    by (cases "train_legacy env tid job ?s3")
  show ?thesis
  proof (cases r)
    case None
    with rs try_eq rest show ?thesis
      by (simp add: train_model_def)
  next
    case (Some e)
    with rs try_eq rest show ?thesis
      by (cases "training_jobs s tid") (simp_all add: train_model_def)
  qed
qed

lemma legacy_run:
  "job_status_history
     (run_training example_train_env ''job-0001'' ''train.csv'' ''baseline'' None
        empty_training_service) ''job-0001''
   = [''started'', ''initializing'', ''loading_data'', ''feature_engineering'',
      ''loading_data'', ''preprocessing'', ''training'', ''evaluating'', ''saving'',
      ''completed'']"
  by (simp add: run_training_def train_model_def train_model_try_def
        train_legacy_def load_training_data_def
        load_training_data_try_def generate_dummy_data_def create_model_def bind_err_def
        example_train_env_def example_files_def example_classifier_def Let_def)
     (simp add: job_status_history_def empty_training_service_def)

lemma comprehensive_run:
  "job_status_history
     (run_training example_train_env ''job-0002'' ''train.csv'' ''comprehensive'' None
        empty_training_service) ''job-0002''
   = [''started'', ''initializing'', ''loading_data'', ''feature_engineering'',
      ''completed'', ''failed'']"
  by (simp add: run_training_def train_model_def train_model_try_def
        train_comprehensive_def example_train_env_def Let_def)
     (simp add: job_status_history_def empty_training_service_def)

text \<open>
  C4. The claim: the statuses of a job follow the forward order and nothing follows a
  terminal status. A baseline job in which every step succeeds writes loading\_data
  again after feature\_engineering; a comprehensive job whose pipeline returns \<open>None\<close>
  is marked completed and then failed. Neither history follows the order.
\<close>

theorem training_status_history:
  "job_status_history
     (run_training example_train_env ''job-0001'' ''train.csv'' ''baseline'' None
        empty_training_service) ''job-0001''
   = [''started'', ''initializing'', ''loading_data'', ''feature_engineering'',
      ''loading_data'', ''preprocessing'', ''training'', ''evaluating'', ''saving'',
      ''completed'']
   \<and> \<not> spec_forward
         [''started'', ''initializing'', ''loading_data'', ''feature_engineering'',
          ''loading_data'', ''preprocessing'', ''training'', ''evaluating'', ''saving'',
          ''completed'']
   \<and> job_status_history
       (run_training example_train_env ''job-0002'' ''train.csv'' ''comprehensive'' None
          empty_training_service) ''job-0002''
     = [''started'', ''initializing'', ''loading_data'', ''feature_engineering'',
        ''completed'', ''failed'']
   \<and> \<not> spec_forward
         [''started'', ''initializing'', ''loading_data'', ''feature_engineering'',
          ''completed'', ''failed'']"
  unfolding legacy_run comprehensive_run
  by (simp add: spec_status_rank_def spec_terminal_def)


section \<open>The evaluation service\<close>

subsection \<open>Unknown model versions\<close>

text \<open>
  C7. When the models directory has no file for the model version, \<open>evaluate\<close> raises
  the model-not-found \<open>ValueError\<close> and the service, with its stored evaluations, is as
  it was.
\<close>

theorem evaluate_unknown_model:
  assumes "\<not> path_exists (efiles env) (os_path_join models_dir (mv @ ''.joblib''))"
  shows "evaluate env eid mv test_path include_shap target_recall self =
           (Inl (ValueError (''Model '' @ mv @ '' not found'')), self)"
  using assms by (simp add: evaluate_def)

text \<open>C7 for the version v2 of a directory that holds v1 only.\<close>

theorem evaluate_unknown_model_witness:
  "\<not> path_exists (efiles example_eval_env) (os_path_join models_dir (''v2'' @ ''.joblib'')) \<and>
   evaluate example_eval_env ''e1'' ''v2'' ''test.csv'' True 0.85 \<lparr>evaluation_jobs = Map.empty\<rparr> =
     (Inl (ValueError ''Model v2 not found''), \<lparr>evaluation_jobs = Map.empty\<rparr>)"
proof -
  have h: "\<not> path_exists (efiles example_eval_env) (os_path_join models_dir (''v2'' @ ''.joblib''))"
    by (simp add: example_eval_env_def example_files_def os_path_join_def models_dir_def)
  show ?thesis
    using evaluate_unknown_model [OF h, of "''e1''" "''test.csv''" True "0.85"
            "\<lparr>evaluation_jobs = Map.empty\<rparr>"] h
    by simp
qed

text \<open>Every failure of \<open>evaluate\<close> leaves the service as it was; a success stores its result.\<close>

lemma evaluate_error_keeps_state:
  "evaluate env eid mv test_path include_shap target_recall self = (Inl e, s') \<Longrightarrow> s' = self"
  by (auto simp: evaluate_def Let_def split: if_splits sum.splits)

lemma evaluate_success_stores:
  "evaluate env eid mv test_path include_shap target_recall self = (Inr ev, s') \<Longrightarrow>
     s' = self\<lparr>evaluation_jobs := (evaluation_jobs self)(eid \<mapsto> ev)\<rparr>"
  by (auto simp: evaluate_def Let_def split: if_splits sum.splits)

subsection \<open>Business cost\<close>

lemma count_zip_left: "x \<notin> set a \<Longrightarrow> count_list (zip a b) (x, y) = 0"
  by (auto simp: count_list_0_iff dest: set_zip_leftD)

lemma count_zip_right: "y \<notin> set b \<Longrightarrow> count_list (zip a b) (x, y) = 0"
  by (auto simp: count_list_0_iff dest: set_zip_rightD)

lemma binary_label_sets:
  "S \<subseteq> {0, 1 :: int} \<Longrightarrow> S = {} \<or> S = {0} \<or> S = {1} \<or> S = {0, 1}"
  by auto

text \<open>
  For labels 0 and 1, what the code unpacks as \<open>fn\<close> and \<open>fp\<close> are the false negatives
  and false positives, also when only one label occurs and the matrix has one entry.
\<close>

lemma confusion_matrix_binary:
  assumes len: "length y_true = length y_pred"
    and bin: "set y_true \<union> set y_pred \<subseteq> {0, 1}"
    and cm: "confusion_matrix y_true y_pred = Inr cm"
    and rv: "(case concat cm of [a, b, c, d] \<Rightarrow> (a, b, c, d) | _ \<Rightarrow> (0, 0, 0, 0))
               = (tn, fp, fn, tp)"
  shows "fn = false_negatives y_true y_pred \<and> fp = false_positives y_true y_pred"
proof -
  let ?S = "set (y_true @ y_pred)"
  have ne: "y_true \<noteq> []"
    using cm len by (auto simp: confusion_matrix_def)
  have cmeq: "cm = (let labels = sorted_list_of_set ?S
                    in map (\<lambda>t. map (\<lambda>p. count_list (zip y_true y_pred) (t, p)) labels) labels)"
    using cm len ne by (auto simp: confusion_matrix_def Let_def)
  have "?S \<subseteq> {0, 1}" using bin by simp
  then consider "?S = {}" | "?S = {0}" | "?S = {1}" | "?S = {0, 1}"
    using binary_label_sets by blast
  then show ?thesis
  proof cases
    case 1
    then have "y_true = []" by simp
    with ne show ?thesis by simp
  next
    case 2
    then have "1 \<notin> ?S" by simp
    then have "1 \<notin> set y_true" "1 \<notin> set y_pred" by simp_all
    then have "false_negatives y_true y_pred = 0" "false_positives y_true y_pred = 0"
      by (simp_all add: false_negatives_def false_positives_def count_zip_left count_zip_right)
    with 2 cmeq rv show ?thesis by simp
  next
    case 3
    then have "0 \<notin> ?S" by simp
    then have "0 \<notin> set y_true" "0 \<notin> set y_pred" by simp_all
    then have "false_negatives y_true y_pred = 0" "false_positives y_true y_pred = 0"
      by (simp_all add: false_negatives_def false_positives_def count_zip_left count_zip_right)
    with 3 cmeq rv show ?thesis by simp
  next
    case 4
    have "sorted_list_of_set {0, 1 :: int} = [0, 1]" by simp
    with 4 cmeq rv show ?thesis
      by (simp add: false_negatives_def false_positives_def)
  qed
qed

lemma column_ok: "list_all (\<lambda>row. k < length row) P \<Longrightarrow> \<exists>c. column k P = Inr c"
  by (simp add: column_def)

lemma masked_column_ok:
  "length y_pred = length P \<Longrightarrow> list_all (\<lambda>row. k < length row) P
     \<Longrightarrow> \<exists>c. masked_column l k y_pred P = Inr c"
  by (simp add: masked_column_def column_def bind_err_def)

lemma two_columns:
  "k < 2 \<Longrightarrow> list_all (\<lambda>row. 2 \<le> length row) P \<Longrightarrow> list_all (\<lambda>row. k < length row) P"
  by (induction P) auto

text \<open>
  For a non-empty sample over the labels 0 and 1 (both arguments of one length, with
  probabilities, if any, of two columns and as many rows), the business metrics are
  computed, \<open>total_cost\<close> is 100 for each false negative plus 10 for each false positive,
  and \<open>cost_per_prediction\<close> is that cost divided by the number of samples; 3 false
  negatives and 2 false positives cost 320.
\<close>

lemma nonempty_business_cost:
  assumes len: "length y_true = length y_pred"
    and ne: "y_true \<noteq> []"
    and bin: "set y_true \<union> set y_pred \<subseteq> {0, 1}"
    and shape: "case y_pred_proba of None \<Rightarrow> True
                | Some P \<Rightarrow> length P = length y_pred \<and> list_all (\<lambda>row. 2 \<le> length row) P"
  shows "\<exists>m. calculate_business_metrics y_true y_pred y_pred_proba = Inr m \<and>
             total_cost m
               = false_negatives y_true y_pred * 100 + false_positives y_true y_pred * 10 \<and>
             cost_per_prediction m = real (total_cost m) / real (length y_true) \<and>
             (false_negatives y_true y_pred = 3 \<and> false_positives y_true y_pred = 2
                \<longrightarrow> total_cost m = 320)"
proof -
  obtain cm where cm: "confusion_matrix y_true y_pred = Inr cm"
    using len ne by (simp add: confusion_matrix_def Let_def)
  obtain tn fp fn tp where
    rv: "(case concat cm of [a, b, c, d] \<Rightarrow> (a, b, c, d) | _ \<Rightarrow> (0, 0, 0, 0)) = (tn, fp, fn, tp)"
    by (metis prod_cases4)
  have counts: "fn = false_negatives y_true y_pred" "fp = false_positives y_true y_pred"
    using confusion_matrix_binary [OF len bin cm rv] by simp_all
  show ?thesis
  proof (cases y_pred_proba)
    case None
    then show ?thesis
      using cm rv counts ne
      by (simp add: calculate_business_metrics_def bind_err_def Let_def)
  next
    case (Some P)
    with shape have lp: "length y_pred = length P"
      and rows: "list_all (\<lambda>row. 2 \<le> length row) P"
      by simp_all
    obtain c1 where c1: "column 1 P = Inr c1"
      using column_ok [OF two_columns [OF _ rows, of 1]] by auto
    obtain pos where pos: "masked_column 1 1 y_pred P = Inr pos"
      using masked_column_ok [OF lp two_columns [OF _ rows, of 1]] by auto
    obtain neg where neg: "masked_column 0 0 y_pred P = Inr neg"
      using masked_column_ok [OF lp two_columns [OF _ rows, of 0]] by auto
    show ?thesis
      using Some cm rv counts c1 pos neg ne
      by (simp add: calculate_business_metrics_def bind_err_def Let_def)
  qed
qed

lemma nonempty_business_cost_example:
  "false_negatives [1, 1, 1, 0, 0, 1, 0] [0, 0, 0, 1, 1, 1, 0] = 3 \<and>
   false_positives [1, 1, 1, 0, 0, 1, 0] [0, 0, 0, 1, 1, 1, 0] = 2 \<and>
   map_sum id (\<lambda>m. (total_cost m, cost_per_prediction m))
     (calculate_business_metrics [1, 1, 1, 0, 0, 1, 0] [0, 0, 0, 1, 1, 1, 0] None)
     = Inr (320, 320 / 7)"
  using nonempty_business_cost [of "[1, 1, 1, 0, 0, 1, 0]" "[0, 0, 0, 1, 1, 1, 0]" None]
  by (auto simp: false_negatives_def false_positives_def)


end
